theory Spec2Isabelle
  imports Main
begin

section \<open>The Akamai platform: synthetic UUIDs\<close>

text \<open>
  The model follows \<^verbatim>\<open>internal/app/machined/pkg/runtime/v1alpha1/platform/akamai/akamai.go\<close>.
  Go's \<^verbatim>\<open>int\<close> is modelled as \<^typ>\<open>int\<close>: the code only compares and prints the
  instance identifier, so no arithmetic can wrap. Go strings are byte strings, here
  \<^typ>\<open>string\<close>.
\<close>

subsection \<open>Decimal formatting (\<^verbatim>\<open>strconv.Itoa\<close>, the \<^verbatim>\<open>%d\<close> verbs of \<^verbatim>\<open>fmt\<close>)\<close>

definition digit_char :: "nat \<Rightarrow> char" where
  "digit_char d = ''0123456789'' ! d"

fun digits :: "nat \<Rightarrow> string" where
  "digits n = (if n < 10 then [digit_char n] else digits (n div 10) @ [digit_char (n mod 10)])"

text \<open>\<^verbatim>\<open>strconv.Itoa(i)\<close> and \<^verbatim>\<open>fmt.Sprintf("%d", i)\<close>: a minus sign for a negative number,
  then the decimal digits of its absolute value.\<close>

definition Itoa :: "int \<Rightarrow> string" where
  "Itoa i = (if i < 0 then CHR ''-'' # digits (nat (- i)) else digits (nat i))"

text \<open>Zero padding on the left up to a width; a string already as wide is unchanged.\<close>

definition pad_zeros :: "nat \<Rightarrow> string \<Rightarrow> string" where
  "pad_zeros w s = replicate (w - length s) CHR ''0'' @ s"

text \<open>\<^verbatim>\<open>fmt.Sprintf("%012d", i)\<close>: width 12 with the zero flag. For a negative number
  the padding goes after the sign, and the sign counts towards the width.\<close>

definition Sprintf_012d :: "int \<Rightarrow> string" where
  "Sprintf_012d i =
     (if i < 0 then CHR ''-'' # pad_zeros 11 (digits (nat (- i)))
      else pad_zeros 12 (digits (nat i)))"

subsection \<open>\<^verbatim>\<open>isInvalidUUID\<close> and \<^verbatim>\<open>generateLinodeUUID\<close>\<close>

definition isInvalidUUID :: "string \<Rightarrow> bool" where
  "isInvalidUUID uuid =
     (if uuid = '''' then True
      else if uuid = ''00000000-0000-0000-0000-000000000000'' then True
      else False)"

definition generateLinodeUUID :: "int \<Rightarrow> string" where
  "generateLinodeUUID linodeID =
     (let linodeIDStr = Sprintf_012d linodeID
      in ''00000000-0000-0000-0000-'' @ linodeIDStr)"

text \<open>Reading a string of decimal digits back as a number, most significant digit first:
  the inverse the zero-padded form is compared against.\<close>

definition digit_value :: "char \<Rightarrow> nat" where
  "digit_value c = of_char c - 48"

definition is_digit :: "char \<Rightarrow> bool" where
  "is_digit c = (48 \<le> (of_char c :: nat) \<and> (of_char c :: nat) \<le> 57)"

definition decimal_value :: "string \<Rightarrow> nat" where
  "decimal_value s = foldl (\<lambda>acc c. 10 * acc + digit_value c) 0 s"

section \<open>Errors and the resource store\<close>

text \<open>
  Errors are values. \<open>NotFoundError\<close> and \<open>ConflictError\<close> are the two classes that
  \<^verbatim>\<open>state.IsNotFoundError\<close> and \<^verbatim>\<open>state.IsConflictError\<close> recognise; \<open>OtherError\<close> is any
  other error of a collaborator, with its message; \<open>Errorf format args err\<close> is
  \<^verbatim>\<open>fmt.Errorf(format, args..., err)\<close> whose format ends in the \<^verbatim>\<open>%w\<close> verb, so that it wraps
  \<open>err\<close>. The two predicates look through the wrapping, as \<^verbatim>\<open>errors.As\<close> does.
\<close>

datatype error =
    NotFoundError
  | ConflictError
  | OtherError string
  | Errorf string "string list" error

primrec IsNotFoundError :: "error \<Rightarrow> bool" where
  "IsNotFoundError NotFoundError = True"
| "IsNotFoundError ConflictError = False"
| "IsNotFoundError (OtherError msg) = False"
| "IsNotFoundError (Errorf format args err) = IsNotFoundError err"

primrec IsConflictError :: "error \<Rightarrow> bool" where
  "IsConflictError NotFoundError = False"
| "IsConflictError ConflictError = True"
| "IsConflictError (OtherError msg) = False"
| "IsConflictError (Errorf format args err) = IsConflictError err"

text \<open>
  The resources the code names, by their metadata: the UUID-override meta key
  (\<^verbatim>\<open>runtimeres.MetaKeyTagToID(meta.UUIDOverride)\<close> in \<^verbatim>\<open>runtimeres.NamespaceName\<close>), the
  system information (\<^verbatim>\<open>hardware.SystemInformationID\<close>), and every other resource of the
  store. The store holds, for the meta key, its \<^verbatim>\<open>TypedSpec().Value\<close>, and for the system
  information its \<^verbatim>\<open>TypedSpec().UUID\<close>, the one field the code reads.
\<close>

datatype key = UUIDOverrideKey | SystemInformationKey | OtherKey string

text \<open>
  \<^verbatim>\<open>state.State\<close> is an interface: besides its contents, an implementation may fail a call
  (a cancelled context, a lost connection). \<open>get_error\<close> and \<open>create_error\<close> say which
  calls fail and with what; where they are \<open>None\<close> the call is answered from the contents.
\<close>

record State =
  resources :: "key \<rightharpoonup> string"
  get_error :: "key \<Rightarrow> error option"
  create_error :: "key \<Rightarrow> error option"

text \<open>The calls a store can receive; the trace of a run lists those it did receive.\<close>

datatype op = OpGet key | OpCreate key string | OpUpdate key string | OpDestroy key

text \<open>Modelled from the spec: the store itself, a library outside this package, by the
  contract the code relies on (\<^verbatim>\<open>get(ctx, key) -> Value | NotFoundError | Error\<close> and
  \<^verbatim>\<open>create(ctx, value) -> () | ConflictError | Error\<close>).
  \<^verbatim>\<open>safe.ReaderGetByID\<close> answers with the resource, or with \<open>NotFoundError\<close> when the store has
  none.\<close>

definition ReaderGetByID :: "State \<Rightarrow> key \<Rightarrow> error + string" where
  "ReaderGetByID r k =
     (case get_error r k of
        Some err \<Rightarrow> Inl err
      | None \<Rightarrow> (case resources r k of None \<Rightarrow> Inl NotFoundError | Some v \<Rightarrow> Inr v))"

text \<open>\<^verbatim>\<open>r.Create\<close>: insert if absent; \<open>ConflictError\<close> when the resource exists already. A
  call that fails leaves the store as it was.\<close>

definition Create :: "State \<Rightarrow> key \<Rightarrow> string \<Rightarrow> error option \<times> State" where
  "Create r k v =
     (case create_error r k of
        Some err \<Rightarrow> (Some err, r)
      | None \<Rightarrow>
          (case resources r k of
             Some old \<Rightarrow> (Some ConflictError, r)
           | None \<Rightarrow> (None, r\<lparr>resources := (resources r)(k \<mapsto> v)\<rparr>)))"

subsection \<open>\<^verbatim>\<open>ensureValidUUID\<close>\<close>

text \<open>
  The result is the returned error (\<open>None\<close> for \<^verbatim>\<open>nil\<close>), the store after the call, and
  the trace of the calls made on the store, in order.
\<close>

definition ensureValidUUID :: "State \<Rightarrow> int \<Rightarrow> error option \<times> State \<times> op list" where
  "ensureValidUUID r linodeID =
     (let t1 = [OpGet UUIDOverrideKey] in
      if (case ReaderGetByID r UUIDOverrideKey of
            Inr uuidOverride \<Rightarrow> uuidOverride \<noteq> ''''
          | Inl err \<Rightarrow> False)
      then (None, r, t1)
      else
        let systemInfo = ReaderGetByID r SystemInformationKey;
            t2 = t1 @ [OpGet SystemInformationKey] in
        (case (case systemInfo of
                 Inl err \<Rightarrow> if \<not> IsNotFoundError err then Some err else None
               | Inr info \<Rightarrow> None) of
           Some err \<Rightarrow> (Some (Errorf ''failed to get system information: %w'' [] err), r, t2)
         | None \<Rightarrow>
             let (shouldOverride, currentUUID) =
                   (case systemInfo of
                      Inr uuid \<Rightarrow> (isInvalidUUID uuid, uuid)
                    | Inl err \<Rightarrow> (True, ''not-available-yet'')) in
             if shouldOverride \<and> linodeID > 0 then
               let generatedUUID = generateLinodeUUID linodeID;
                   (created, r') = Create r UUIDOverrideKey generatedUUID;
                   t3 = t2 @ [OpCreate UUIDOverrideKey generatedUUID] in
               (case created of
                  Some err \<Rightarrow>
                    if \<not> IsConflictError err
                    then (Some (Errorf ''failed to create UUID override for invalid SMBIOS UUID %q: %w''
                                  [currentUUID] err), r', t3)
                    else (None, r', t3)
                | None \<Rightarrow> (None, r', t3))
             else (None, r, t2)))"

text \<open>What a trace says: the writes it holds.\<close>

fun is_write :: "op \<Rightarrow> bool" where
  "is_write (OpGet k) = False"
| "is_write (OpCreate k v) = True"
| "is_write (OpUpdate k v) = True"
| "is_write (OpDestroy k) = True"

subsection \<open>Reading a store, and stores to run the model on\<close>

text \<open>Whether the first read ends the call: it returned an override whose value is not
  empty.\<close>

definition override_set :: "State \<Rightarrow> bool" where
  "override_set r =
     (case ReaderGetByID r UUIDOverrideKey of
        Inr uuidOverride \<Rightarrow> uuidOverride \<noteq> []
      | Inl err \<Rightarrow> False)"

text \<open>The UUID the code holds in \<^verbatim>\<open>currentUUID\<close> once the system information was read: its
  UUID, or the placeholder when there is no system information yet.\<close>

definition currentUUID :: "State \<Rightarrow> string" where
  "currentUUID r =
     (case ReaderGetByID r SystemInformationKey of
        Inr uuid \<Rightarrow> uuid
      | Inl err \<Rightarrow> ''not-available-yet'')"

text \<open>A store that answers every call from its contents, and the same store with one read
  or one create made to fail.\<close>

definition healthy :: "(key \<rightharpoonup> string) \<Rightarrow> State" where
  "healthy m = \<lparr>resources = m, get_error = (\<lambda>k. None), create_error = (\<lambda>k. None)\<rparr>"

definition failing_get :: "key \<Rightarrow> error \<Rightarrow> State \<Rightarrow> State" where
  "failing_get k err r = r\<lparr>get_error := (get_error r)(k := Some err)\<rparr>"

definition failing_create :: "key \<Rightarrow> error \<Rightarrow> State \<Rightarrow> State" where
  "failing_create k err r = r\<lparr>create_error := (create_error r)(k := Some err)\<rparr>"

text \<open>The stores of the package's tests: an override already set beside an all-zero
  hardware UUID; the all-zero hardware UUID alone; a valid hardware UUID; and an override
  record whose value is empty.\<close>

definition store_existing_override :: State where
  "store_existing_override =
     healthy [UUIDOverrideKey \<mapsto> ''existing-uuid-should-not-change'',
              SystemInformationKey \<mapsto> ''00000000-0000-0000-0000-000000000000'']"

definition store_zero_uuid :: State where
  "store_zero_uuid = healthy [SystemInformationKey \<mapsto> ''00000000-0000-0000-0000-000000000000'']"

definition store_valid_uuid :: State where
  "store_valid_uuid = healthy [SystemInformationKey \<mapsto> ''550e8400-e29b-41d4-a716-446655440000'']"

definition store_empty_override :: State where
  "store_empty_override =
     healthy [UUIDOverrideKey \<mapsto> [],
              SystemInformationKey \<mapsto> ''00000000-0000-0000-0000-000000000000'']"

section \<open>Translating the metadata: \<^verbatim>\<open>ParseMetadata\<close>\<close>

text \<open>
  The enumerations of \<^verbatim>\<open>nethelpers\<close> and \<^verbatim>\<open>network\<close>: the constants the code names, and
  the zero value of each type where the code leaves a field unset. \<^verbatim>\<open>AddressFlags\<close> is a bit
  mask, here the set of the flags that are on.
\<close>

datatype ConfigLayer = ConfigDefault | ConfigCmdline | ConfigPlatform | ConfigOperator
  | ConfigMachineConfiguration

datatype Scope = ScopeGlobal | ScopeSite | ScopeLink | ScopeHost | ScopeNowhere

datatype Family = FamilyUnspec | FamilyInet4 | FamilyInet6

datatype AddressFlag = AddressTemporary | AddressPermanent | AddressManagementTemp

type_synonym AddressFlags = "AddressFlag set"

datatype RoutingTable = TableUnspec | TableDefault | TableMain | TableLocal

datatype RouteProtocol = ProtocolUnspec | ProtocolKernel | ProtocolBoot | ProtocolStatic

datatype RouteType = TypeUnspec | TypeUnicast | TypeLocal | TypeBroadcast

text \<open>
  \<^verbatim>\<open>netip.Prefix\<close> is an address and a prefix length; the address type \<open>'a\<close> (\<^verbatim>\<open>netip.Addr\<close>)
  is left open. \<open>Addr\<close> is \<^verbatim>\<open>Prefix.Addr()\<close>.
\<close>

record 'a Prefix =
  Addr :: 'a
  Bits :: int

record HostnameSpecSpec =
  Hostname :: string
  Domainname :: string
  ConfigLayer_h :: ConfigLayer

record 'a AddressSpecSpec =
  ConfigLayer :: ConfigLayer
  LinkName :: string
  Address :: "'a Prefix"
  Scope :: Scope
  Flags :: AddressFlags
  Family :: Family

record 'a RouteSpecSpec =
  ConfigLayer_r :: ConfigLayer
  Gateway :: 'a
  OutLinkName :: string
  Destination :: "'a Prefix"
  Table :: RoutingTable
  Protocol :: RouteProtocol
  Type :: RouteType
  Family_r :: Family
  Priority :: nat

record PlatformMetadataSpec =
  Platform :: string
  Hostname_m :: string
  Region_m :: string
  InstanceType :: string
  InstanceID :: string
  ProviderID :: string

text \<open>\<^verbatim>\<open>runtime.PlatformNetworkConfig\<close>: the fields the code fills; \<open>Metadata\<close> is a pointer.\<close>

record 'a PlatformNetworkConfig =
  Hostnames :: "HostnameSpecSpec list"
  Addresses :: "'a AddressSpecSpec list"
  Routes :: "'a RouteSpecSpec list"
  ExternalIPs :: "'a list"
  Metadata :: "PlatformMetadataSpec option"

text \<open>The metadata service's answers (\<^verbatim>\<open>akametadata.InstanceData\<close>, \<^verbatim>\<open>akametadata.NetworkData\<close>):
  the fields the code reads.\<close>

record InstanceData =
  Label :: string
  Region :: string
  Type_i :: string
  ID :: int

record 'a IPv4Data =
  Public :: "'a Prefix list"
  Private :: "'a Prefix list"

record 'a IPv6Data =
  Ranges :: "'a Prefix list"
  LinkLocal :: "'a Prefix"

record 'a NetworkData =
  IPv4 :: "'a IPv4Data"
  IPv6 :: "'a IPv6Data"

text \<open>
  The functions \<^verbatim>\<open>ParseMetadata\<close> calls whose code is not in this package are parameters of
  the model: \<^verbatim>\<open>netip.Prefix.String\<close>, \<^verbatim>\<open>netip.Addr.String\<close> and \<^verbatim>\<open>netip.ParseAddr\<close> of the
  standard library, \<^verbatim>\<open>HostnameSpecSpec.ParseFQDN\<close> (which fills the receiver or fails) and
  \<^verbatim>\<open>RouteSpecSpec.Normalize\<close> (which rewrites the receiver). Every theorem about
  \<open>ParseMetadata\<close> holds whatever they compute.
\<close>

record 'a extern =
  Prefix_String :: "'a Prefix \<Rightarrow> string"
  Addr_String :: "'a \<Rightarrow> string"
  ParseAddr :: "string \<Rightarrow> error + 'a"
  ParseFQDN :: "HostnameSpecSpec \<Rightarrow> string \<Rightarrow> error + HostnameSpecSpec"
  Normalize :: "'a RouteSpecSpec \<Rightarrow> 'a RouteSpecSpec"

text \<open>\<^verbatim>\<open>strings.Split(s, sep)\<close> for a separator of one byte: the pieces between the
  separators, in order; a string without the separator is the only piece.\<close>

fun Split :: "string \<Rightarrow> char \<Rightarrow> string list" where
  "Split [] sep = [[]]"
| "Split (c # s) sep =
     (if c = sep then [] # Split s sep
      else (case Split s sep of
              [] \<Rightarrow> [[c]]
            | piece # pieces \<Rightarrow> (c # piece) # pieces))"

text \<open>The bodies of the three loops over the prefixes: each appends to \<^verbatim>\<open>publicIPs\<close> and to
  \<^verbatim>\<open>networkConfig.Addresses\<close> as the source does.\<close>

fun public_step ::
  "'a extern \<Rightarrow> string list \<times> 'a AddressSpecSpec list \<Rightarrow> 'a Prefix
     \<Rightarrow> string list \<times> 'a AddressSpecSpec list" where
  "public_step lib (publicIPs, addresses) iface =
     (publicIPs @ [Addr_String lib (Addr iface)],
      addresses @
        [\<lparr>ConfigLayer = ConfigPlatform, LinkName = ''eth0'', Address = iface,
          Scope = ScopeGlobal, Flags = {AddressPermanent}, Family = FamilyInet4\<rparr>])"

definition private_step :: "'a AddressSpecSpec list \<Rightarrow> 'a Prefix \<Rightarrow> 'a AddressSpecSpec list" where
  "private_step addresses iface =
     addresses @
       [\<lparr>ConfigLayer = ConfigPlatform, LinkName = ''eth0'', Address = iface,
         Scope = ScopeGlobal, Flags = {AddressPermanent}, Family = FamilyInet4\<rparr>]"

fun ranges_step ::
  "'a extern \<Rightarrow> string list \<times> 'a AddressSpecSpec list \<Rightarrow> 'a Prefix
     \<Rightarrow> string list \<times> 'a AddressSpecSpec list" where
  "ranges_step lib (publicIPs, addresses) iface =
     (publicIPs @ [Addr_String lib (Addr iface)],
      addresses @
        [\<lparr>ConfigLayer = ConfigPlatform, LinkName = ''eth0'', Address = iface,
          Scope = ScopeGlobal, Flags = {AddressManagementTemp}, Family = FamilyInet6\<rparr>])"

text \<open>The last loop: an address string that parses is appended, one that does not is
  passed over.\<close>

definition external_step :: "'a extern \<Rightarrow> 'a list \<Rightarrow> string \<Rightarrow> 'a list" where
  "external_step lib externalIPs ipStr =
     (case ParseAddr lib ipStr of
        Inr ip \<Rightarrow> externalIPs @ [ip]
      | Inl err \<Rightarrow> externalIPs)"

text \<open>
  \<^verbatim>\<open>ParseMetadata\<close>. Both arguments are taken to be non-nil. Indexing the result of
  \<^verbatim>\<open>strings.Split\<close> at 0 panics on an empty slice; the branch is kept, as \<open>Panic\<close>.
\<close>

datatype 'c outcome = Returned 'c | Failed error | Panic string

definition ParseMetadata ::
  "'a extern \<Rightarrow> InstanceData \<Rightarrow> 'a NetworkData \<Rightarrow> 'a PlatformNetworkConfig outcome" where
  "ParseMetadata lib metadata interfaceAddresses =
     (case (if Label metadata \<noteq> ''''
            then (case ParseFQDN lib \<lparr>Hostname = '''', Domainname = '''',
                                      ConfigLayer_h = ConfigPlatform\<rparr> (Label metadata) of
                    Inl err \<Rightarrow> Inl err
                  | Inr hostnameSpec \<Rightarrow> Inr [hostnameSpec])
            else Inr []) of
        Inl err \<Rightarrow> Failed err
      | Inr hostnames \<Rightarrow>
          let (publicIPs1, addresses1) =
                foldl (public_step lib) ([], []) (Public (IPv4 interfaceAddresses));
              addresses2 = foldl private_step addresses1 (Private (IPv4 interfaceAddresses));
              (publicIPs, addresses3) =
                foldl (ranges_step lib) (publicIPs1, addresses2) (Ranges (IPv6 interfaceAddresses));
              addresses = addresses3 @
                [\<lparr>ConfigLayer = ConfigPlatform, LinkName = ''eth0'',
                  Address = LinkLocal (IPv6 interfaceAddresses),
                  Scope = ScopeLink, Flags = {}, Family = FamilyInet6\<rparr>]
          in (case Split (Prefix_String lib (LinkLocal (IPv6 interfaceAddresses))) CHR '':'' of
                [] \<Rightarrow> Panic ''index out of range [0] with length 0''
              | segment # segments \<Rightarrow>
                  (case ParseAddr lib (segment @ ''::1'') of
                     Inl err \<Rightarrow> Failed err
                   | Inr ipv6gw \<Rightarrow>
                       let route = Normalize lib
                             \<lparr>ConfigLayer_r = ConfigPlatform, Gateway = ipv6gw,
                              OutLinkName = ''eth0'',
                              Destination = LinkLocal (IPv6 interfaceAddresses),
                              Table = TableMain, Protocol = ProtocolStatic, Type = TypeUnicast,
                              Family_r = FamilyInet6, Priority = 1024\<rparr>;
                           externalIPs = foldl (external_step lib) [] publicIPs
                       in Returned
                            \<lparr>Hostnames = hostnames, Addresses = addresses, Routes = [route],
                             ExternalIPs = externalIPs,
                             Metadata = Some
                               \<lparr>Platform = ''akamai'', Hostname_m = Label metadata,
                                Region_m = Region metadata, InstanceType = Type_i metadata,
                                InstanceID = Itoa (ID metadata),
                                ProviderID = ''linode://'' @ Itoa (ID metadata)\<rparr>\<rparr>)))"

text \<open>The string the gateway is parsed from: the first piece of the link-local prefix's
  text, cut at the colons, followed by \<^verbatim>\<open>::1\<close>.\<close>

definition gateway_string :: "'a extern \<Rightarrow> 'a NetworkData \<Rightarrow> string" where
  "gateway_string lib interfaceAddresses =
     takeWhile (\<lambda>c. c \<noteq> CHR '':'') (Prefix_String lib (LinkLocal (IPv6 interfaceAddresses)))
       @ ''::1''"

text \<open>Whether the hostname step lets the translation go on: the label is empty, or
  \<^verbatim>\<open>ParseFQDN\<close> accepts it.\<close>

definition hostname_ok :: "'a extern \<Rightarrow> InstanceData \<Rightarrow> bool" where
  "hostname_ok lib metadata =
     (Label metadata = '''' \<or>
      (case ParseFQDN lib \<lparr>Hostname = '''', Domainname = '''', ConfigLayer_h = ConfigPlatform\<rparr>
              (Label metadata) of
         Inl err \<Rightarrow> False
       | Inr hostnameSpec \<Rightarrow> True))"

text \<open>The hostname entries of a translation that got past the hostname step.\<close>

definition hostnames_of :: "'a extern \<Rightarrow> InstanceData \<Rightarrow> HostnameSpecSpec list" where
  "hostnames_of lib metadata =
     (if Label metadata = [] then []
      else (case ParseFQDN lib \<lparr>Hostname = [], Domainname = [], ConfigLayer_h = ConfigPlatform\<rparr>
                   (Label metadata) of
              Inl err \<Rightarrow> []
            | Inr hostnameSpec \<Rightarrow> [hostnameSpec]))"

text \<open>What one prefix gives to the external-IP list: its bare address, printed and parsed
  again, or nothing when the text does not parse.\<close>

definition bare_address :: "'a extern \<Rightarrow> 'a Prefix \<Rightarrow> 'a list" where
  "bare_address lib iface =
     (case ParseAddr lib (Addr_String lib (Addr iface)) of
        Inr ip \<Rightarrow> [ip]
      | Inl err \<Rightarrow> [])"



subsection \<open>A sample of the library functions\<close>

text \<open>
  To run the model on concrete metadata the parameters need values. In this sample an
  address is its own text, the zero address being \<^verbatim>\<open>invalid IP\<close> as \<^verbatim>\<open>netip\<close> prints it, and the
  zero prefix prints as \<^verbatim>\<open>invalid Prefix\<close>. \<open>ParseAddr\<close> accepts the non-empty strings of
  hexadecimal digits, colons and dots. \<open>ParseFQDN\<close> cuts the name at its first dot and
  refuses an empty host part, a host part of more than 63 bytes and a name of more than
  253 bytes. \<open>Normalize\<close> replaces a destination of prefix length 0 by the zero prefix and
  leaves the other fields of the route as they are.
\<close>

definition sample_extern :: "string extern" where
  "sample_extern =
     \<lparr>Prefix_String = (\<lambda>p. if Addr p = ''invalid IP'' \<or> Bits p < 0 then ''invalid Prefix''
                             else Addr p @ ''/'' @ Itoa (Bits p)),
      Addr_String = (\<lambda>a. a),
      ParseAddr = (\<lambda>s. if s \<noteq> '''' \<and> list_all (\<lambda>c. c \<in> set ''0123456789abcdef:.'') s
                        then Inr s
                        else Inl (OtherError ''unable to parse IP'')),
      ParseFQDN = (\<lambda>spec fqdn.
                     let host = takeWhile (\<lambda>c. c \<noteq> CHR ''.'') fqdn;
                         domain = drop (length host + 1) fqdn
                     in if host = '''' then Inl (OtherError ''hostname is empty'')
                        else if length host > 63
                        then Inl (OtherError ''hostname length exceeds 63 bytes'')
                        else if length (if domain = '''' then host else host @ ''.'' @ domain) > 253
                        then Inl (OtherError ''fqdn length exceeds 253 bytes'')
                        else Inr (spec\<lparr>Hostname := host, Domainname := domain\<rparr>)),
      Normalize = (\<lambda>route. if Bits (Destination route) = 0
                             then route\<lparr>Destination := \<lparr>Addr = ''invalid IP'', Bits = - 1\<rparr>\<rparr>
                             else route)\<rparr>"

definition sample_instance :: InstanceData where
  "sample_instance = \<lparr>Label = ''node-1.example'', Region = ''eu-central'',
                       Type_i = ''g6-standard-2'', ID = 79475478\<rparr>"

definition sample_network :: "string NetworkData" where
  "sample_network =
     \<lparr>IPv4 = \<lparr>Public = [\<lparr>Addr = ''203.0.113.7'', Bits = 24\<rparr>],
              Private = [\<lparr>Addr = ''192.168.128.9'', Bits = 17\<rparr>]\<rparr>,
      IPv6 = \<lparr>Ranges = [\<lparr>Addr = ''2001:db8::1'', Bits = 64\<rparr>],
              LinkLocal = \<lparr>Addr = ''fe80::abcd:1'', Bits = 64\<rparr>\<rparr>\<rparr>"

text \<open>More answers of the metadata service: one with a public address whose text does not
  parse, one whose link-local prefix is the zero prefix and gives no gateway, and one whose
  link-local prefix has length 0.\<close>

definition sample_network_unparsable :: "string NetworkData" where
  "sample_network_unparsable =
     \<lparr>IPv4 = \<lparr>Public = [\<lparr>Addr = ''invalid IP'', Bits = 0\<rparr>, \<lparr>Addr = ''203.0.113.7'', Bits = 24\<rparr>],
              Private = [\<lparr>Addr = ''192.168.128.9'', Bits = 17\<rparr>]\<rparr>,
      IPv6 = \<lparr>Ranges = [\<lparr>Addr = ''2001:db8::1'', Bits = 64\<rparr>],
              LinkLocal = \<lparr>Addr = ''fe80::1'', Bits = 64\<rparr>\<rparr>\<rparr>"

definition sample_network_no_gateway :: "string NetworkData" where
  "sample_network_no_gateway =
     \<lparr>IPv4 = \<lparr>Public = [\<lparr>Addr = ''203.0.113.7'', Bits = 24\<rparr>], Private = []\<rparr>,
      IPv6 = \<lparr>Ranges = [], LinkLocal = \<lparr>Addr = ''invalid IP'', Bits = - 1\<rparr>\<rparr>\<rparr>"

definition sample_network_wide :: "string NetworkData" where
  "sample_network_wide =
     \<lparr>IPv4 = \<lparr>Public = [\<lparr>Addr = ''203.0.113.7'', Bits = 24\<rparr>], Private = []\<rparr>,
      IPv6 = \<lparr>Ranges = [], LinkLocal = \<lparr>Addr = ''fe80::1'', Bits = 0\<rparr>\<rparr>\<rparr>"

section \<open>Decimal formatting\<close>

text \<open>\<open>digits\<close> unfolds on every argument, so its equation is used by hand.\<close>

declare digits.simps [simp del]

lemma replicate_unfold: "0 < n \<Longrightarrow> replicate n c = c # replicate (n - 1) c"
  by (cases n) simp_all

lemma digit_value_digit_char: "d < 10 \<Longrightarrow> digit_value (digit_char d) = d"
proof -
  assume "d < 10"
  then consider "d = 0" | "d = 1" | "d = 2" | "d = 3" | "d = 4" | "d = 5" | "d = 6" | "d = 7"
    | "d = 8" | "d = 9"
    by atomize_elim arith
  then show ?thesis
    by cases (simp_all add: digit_value_def digit_char_def)
qed

lemma is_digit_digit_char: "d < 10 \<Longrightarrow> is_digit (digit_char d)"
proof -
  assume "d < 10"
  then consider "d = 0" | "d = 1" | "d = 2" | "d = 3" | "d = 4" | "d = 5" | "d = 6" | "d = 7"
    | "d = 8" | "d = 9"
    by atomize_elim arith
  then show ?thesis
    by cases (simp_all add: is_digit_def digit_char_def)
qed

lemma decimal_value_snoc: "decimal_value (s @ [c]) = 10 * decimal_value s + digit_value c"
  by (simp add: decimal_value_def)

lemma decimal_value_digits: "decimal_value (digits n) = n"
proof (induction n rule: digits.induct)
  case (1 n)
  show ?case
  proof (cases "n < 10")
    case True
    then show ?thesis
      by (simp add: digits.simps [of n] decimal_value_def digit_value_digit_char)
  next
    case False
    then have "decimal_value (digits n) = 10 * (n div 10) + n mod 10"
      using "1.IH" by (simp add: digits.simps [of n] decimal_value_snoc digit_value_digit_char)
    then show ?thesis by simp
  qed
qed

lemma all_digits_digits: "list_all is_digit (digits n)"
proof (induction n rule: digits.induct)
  case (1 n)
  then show ?case
    by (cases "n < 10") (simp_all add: digits.simps [of n] is_digit_digit_char)
qed

lemma length_digits: "0 < k \<Longrightarrow> n < 10 ^ k \<Longrightarrow> length (digits n) \<le> k"
proof (induction n arbitrary: k rule: digits.induct)
  case (1 n)
  show ?case
  proof (cases "n < 10")
    case True
    then show ?thesis using "1.prems" by (simp add: digits.simps [of n])
  next
    case False
    then obtain j where k: "k = Suc j" and j: "0 < j"
      using "1.prems" by (cases k; cases "k - 1") auto
    have "n div 10 < 10 ^ j"
      using "1.prems"(2) k by (simp add: less_mult_imp_div_less mult.commute)
    then have "length (digits (n div 10)) \<le> j"
      using "1.IH" False j by simp
    then show ?thesis using False k by (simp add: digits.simps [of n])
  qed
qed

lemma decimal_value_zeros: "decimal_value (replicate k CHR ''0'' @ s) = decimal_value s"
proof -
  have "foldl (\<lambda>acc c. 10 * acc + digit_value c) 0 (replicate k CHR ''0'') = 0"
    by (induction k) (simp_all add: digit_value_def)
  then show ?thesis by (simp add: decimal_value_def)
qed

lemma decimal_value_pad_zeros: "decimal_value (pad_zeros w s) = decimal_value s"
  by (simp add: pad_zeros_def decimal_value_zeros)

lemma all_digits_pad_zeros: "list_all is_digit s \<Longrightarrow> list_all is_digit (pad_zeros w s)"
  by (auto simp add: pad_zeros_def list_all_iff is_digit_def)

lemma length_pad_zeros: "length s \<le> w \<Longrightarrow> length (pad_zeros w s) = w"
  by (simp add: pad_zeros_def)

section \<open>The synthetic UUID\<close>

text \<open>
  C7. For every string \<open>s\<close>, \<open>isInvalidUUID s\<close> is true exactly when \<open>s\<close> is empty or is the
  all-zero UUID; every other string counts as valid, whatever its form.
\<close>

theorem isInvalidUUID_iff:
  "isInvalidUUID s \<longleftrightarrow> (s = '''' \<or> s = ''00000000-0000-0000-0000-000000000000'')"
  by (simp add: isInvalidUUID_def)

text \<open>
  C6. For every identifier from 0 up to (not including) \<open>10 ^ 12\<close>, \<open>generateLinodeUUID\<close>
  gives the fixed prefix followed by the decimal identifier padded with zeros to 12
  digits: the result has length 36, dashes at offsets 8, 13, 18 and 23, and its last 12
  characters are 12 decimal digits whose value is the identifier.
\<close>

theorem generateLinodeUUID_format:
  assumes "0 \<le> linodeID" and "linodeID < 10 ^ 12"
  shows "generateLinodeUUID linodeID = ''00000000-0000-0000-0000-'' @ pad_zeros 12 (Itoa linodeID)
    \<and> length (generateLinodeUUID linodeID) = 36
    \<and> generateLinodeUUID linodeID ! 8 = CHR ''-''
    \<and> generateLinodeUUID linodeID ! 13 = CHR ''-''
    \<and> generateLinodeUUID linodeID ! 18 = CHR ''-''
    \<and> generateLinodeUUID linodeID ! 23 = CHR ''-''
    \<and> drop 24 (generateLinodeUUID linodeID) = pad_zeros 12 (Itoa linodeID)
    \<and> length (pad_zeros 12 (Itoa linodeID)) = 12
    \<and> list_all is_digit (pad_zeros 12 (Itoa linodeID))
    \<and> int (decimal_value (pad_zeros 12 (Itoa linodeID))) = linodeID"
proof -
  have itoa: "Itoa linodeID = digits (nat linodeID)"
    using assms(1) by (simp add: Itoa_def)
  have gen: "generateLinodeUUID linodeID = ''00000000-0000-0000-0000-'' @ pad_zeros 12 (Itoa linodeID)"
    using assms(1) by (simp add: generateLinodeUUID_def Sprintf_012d_def Itoa_def)
  have "nat linodeID < 10 ^ 12"
    using assms by (simp add: nat_less_iff)
  then have "length (digits (nat linodeID)) \<le> 12"
    by (intro length_digits) simp_all
  then have len: "length (pad_zeros 12 (Itoa linodeID)) = 12"
    by (simp add: itoa length_pad_zeros)
  have dig: "list_all is_digit (pad_zeros 12 (Itoa linodeID))"
    by (simp add: itoa all_digits_pad_zeros all_digits_digits)
  have val: "int (decimal_value (pad_zeros 12 (Itoa linodeID))) = linodeID"
    using assms(1) by (simp add: itoa decimal_value_pad_zeros decimal_value_digits)
  have l36: "length (generateLinodeUUID linodeID) = 36"
    by (simp add: gen len)
  have d: "generateLinodeUUID linodeID ! 8 = CHR ''-''" "generateLinodeUUID linodeID ! 13 = CHR ''-''"
    "generateLinodeUUID linodeID ! 18 = CHR ''-''" "generateLinodeUUID linodeID ! 23 = CHR ''-''"
    by (simp_all add: gen)
  have dr: "drop 24 (generateLinodeUUID linodeID) = pad_zeros 12 (Itoa linodeID)"
    by (simp add: gen)
  show ?thesis using gen l36 d dr len dig val by blast
qed

theorem generateLinodeUUID_format_witness:
  "(0::int) \<le> 79475478 \<and> (79475478::int) < 10 ^ 12
   \<and> generateLinodeUUID 79475478 = ''00000000-0000-0000-0000-000079475478''
   \<and> length (generateLinodeUUID 79475478) = 36
   \<and> generateLinodeUUID 79475478 ! 8 = CHR ''-''
   \<and> drop 24 (generateLinodeUUID 79475478) = ''000079475478''
   \<and> decimal_value ''000079475478'' = 79475478"
proof -
  have pad: "pad_zeros 12 (Itoa 79475478) = ''000079475478''"
    by (simp add: pad_zeros_def Itoa_def digits.simps digit_char_def replicate_unfold)
  show ?thesis
    using generateLinodeUUID_format [of 79475478] by (simp add: pad)
qed

section \<open>The identity override: \<^verbatim>\<open>ensureValidUUID\<close>\<close>

subsection \<open>The store and the shape of a run\<close>

lemma Create_resources:
  "resources (snd (Create r k v)) k' =
     (if k' = k \<and> create_error r k = None \<and> resources r k = None then Some v
      else resources r k')"
  by (simp add: Create_def split: option.splits)

lemma Create_errors:
  "get_error (snd (Create r k v)) = get_error r \<and> create_error (snd (Create r k v)) = create_error r"
  by (simp add: Create_def split: option.splits)

lemma Create_failed: "fst (Create r k v) = Some err \<Longrightarrow> snd (Create r k v) = r"
  by (simp add: Create_def split: option.splits)

lemma ensureValidUUID_hit:
  "ReaderGetByID r UUIDOverrideKey = Inr v \<Longrightarrow> v \<noteq> '''' \<Longrightarrow>
   ensureValidUUID r linodeID = (None, r, [OpGet UUIDOverrideKey])"
  by (simp add: ensureValidUUID_def)

text \<open>The rest of the function, once the first read did not end the call.\<close>

lemma ensureValidUUID_miss:
  assumes "\<not> (\<exists>v. ReaderGetByID r UUIDOverrideKey = Inr v \<and> v \<noteq> '''')"
  shows "ensureValidUUID r linodeID =
     (case ReaderGetByID r SystemInformationKey of
        Inl err \<Rightarrow>
          if \<not> IsNotFoundError err
          then (Some (Errorf ''failed to get system information: %w'' [] err), r,
                [OpGet UUIDOverrideKey, OpGet SystemInformationKey])
          else if linodeID > 0
          then (case fst (Create r UUIDOverrideKey (generateLinodeUUID linodeID)) of
                  Some cerr \<Rightarrow>
                    if \<not> IsConflictError cerr
                    then (Some (Errorf ''failed to create UUID override for invalid SMBIOS UUID %q: %w''
                                  [''not-available-yet''] cerr), r,
                          [OpGet UUIDOverrideKey, OpGet SystemInformationKey,
                           OpCreate UUIDOverrideKey (generateLinodeUUID linodeID)])
                    else (None, r,
                          [OpGet UUIDOverrideKey, OpGet SystemInformationKey,
                           OpCreate UUIDOverrideKey (generateLinodeUUID linodeID)])
                | None \<Rightarrow> (None, snd (Create r UUIDOverrideKey (generateLinodeUUID linodeID)),
                          [OpGet UUIDOverrideKey, OpGet SystemInformationKey,
                           OpCreate UUIDOverrideKey (generateLinodeUUID linodeID)]))
          else (None, r, [OpGet UUIDOverrideKey, OpGet SystemInformationKey])
      | Inr uuid \<Rightarrow>
          if isInvalidUUID uuid \<and> linodeID > 0
          then (case fst (Create r UUIDOverrideKey (generateLinodeUUID linodeID)) of
                  Some cerr \<Rightarrow>
                    if \<not> IsConflictError cerr
                    then (Some (Errorf ''failed to create UUID override for invalid SMBIOS UUID %q: %w''
                                  [uuid] cerr), r,
                          [OpGet UUIDOverrideKey, OpGet SystemInformationKey,
                           OpCreate UUIDOverrideKey (generateLinodeUUID linodeID)])
                    else (None, r,
                          [OpGet UUIDOverrideKey, OpGet SystemInformationKey,
                           OpCreate UUIDOverrideKey (generateLinodeUUID linodeID)])
                | None \<Rightarrow> (None, snd (Create r UUIDOverrideKey (generateLinodeUUID linodeID)),
                          [OpGet UUIDOverrideKey, OpGet SystemInformationKey,
                           OpCreate UUIDOverrideKey (generateLinodeUUID linodeID)]))
          else (None, r, [OpGet UUIDOverrideKey, OpGet SystemInformationKey]))"
proof -
  have first: "(case ReaderGetByID r UUIDOverrideKey of
            Inr uuidOverride \<Rightarrow> uuidOverride \<noteq> ''''
          | Inl err \<Rightarrow> False) = False"
    using assms by (cases "ReaderGetByID r UUIDOverrideKey") auto
  obtain c r' where c: "Create r UUIDOverrideKey (generateLinodeUUID linodeID) = (c, r')"
    by (cases "Create r UUIDOverrideKey (generateLinodeUUID linodeID)")
  have keep: "c = Some e \<Longrightarrow> r' = r" for e
    using Create_failed [of r UUIDOverrideKey "generateLinodeUUID linodeID" e] c by simp
  show ?thesis
    unfolding ensureValidUUID_def Let_def first
    by (simp add: c split: sum.splits option.splits) (use keep in auto)
qed

lemma ensureValidUUID_state_cases:
  "fst (snd (ensureValidUUID r linodeID)) = r \<or>
   fst (snd (ensureValidUUID r linodeID)) = snd (Create r UUIDOverrideKey (generateLinodeUUID linodeID))"
proof (cases "\<exists>v. ReaderGetByID r UUIDOverrideKey = Inr v \<and> v \<noteq> []")
  case True
  then show ?thesis by (auto simp add: ensureValidUUID_hit)
next
  case False
  then show ?thesis
    by (simp add: ensureValidUUID_miss split: sum.splits option.splits)
qed

lemma ensureValidUUID_trace_cases:
  "snd (snd (ensureValidUUID r linodeID)) = [OpGet UUIDOverrideKey] \<or>
   snd (snd (ensureValidUUID r linodeID)) = [OpGet UUIDOverrideKey, OpGet SystemInformationKey] \<or>
   snd (snd (ensureValidUUID r linodeID)) =
     [OpGet UUIDOverrideKey, OpGet SystemInformationKey,
      OpCreate UUIDOverrideKey (generateLinodeUUID linodeID)]"
proof (cases "\<exists>v. ReaderGetByID r UUIDOverrideKey = Inr v \<and> v \<noteq> []")
  case True
  then show ?thesis by (auto simp add: ensureValidUUID_hit)
next
  case False
  then show ?thesis
    by (simp add: ensureValidUUID_miss split: sum.splits option.splits)
qed

lemma failing_get_override_miss:
  "\<not> (\<exists>v. ReaderGetByID (failing_get UUIDOverrideKey e r) UUIDOverrideKey = Inr v \<and> v \<noteq> [])"
  by (simp add: ReaderGetByID_def failing_get_def)

lemma failing_get_override_reads:
  "ReaderGetByID (failing_get UUIDOverrideKey e r) SystemInformationKey =
     ReaderGetByID r SystemInformationKey"
  by (simp add: ReaderGetByID_def failing_get_def split: option.splits)

lemma failing_get_override_Create:
  "fst (Create (failing_get UUIDOverrideKey e r) k v) = fst (Create r k v)
   \<and> resources (snd (Create (failing_get UUIDOverrideKey e r) k v)) = resources (snd (Create r k v))"
  by (simp add: Create_def failing_get_def split: option.splits)

lemma generateLinodeUUID_79475478:
  "generateLinodeUUID 79475478 = ''00000000-0000-0000-0000-000079475478''"
  by (simp add: generateLinodeUUID_def Sprintf_012d_def pad_zeros_def digits.simps digit_char_def
        replicate_unfold)

lemma generateLinodeUUID_12345:
  "generateLinodeUUID 12345 = ''00000000-0000-0000-0000-000000012345''"
  by (simp add: generateLinodeUUID_def Sprintf_012d_def pad_zeros_def digits.simps digit_char_def
        replicate_unfold)

lemmas store_defs = healthy_def failing_get_def failing_create_def store_existing_override_def
  store_zero_uuid_def store_valid_uuid_def store_empty_override_def

lemmas run_defs = ensureValidUUID_def ReaderGetByID_def Create_def isInvalidUUID_def
  override_set_def currentUUID_def Let_def

subsection \<open>An override that is set is never touched\<close>

text \<open>
  C1, as amended. Let the store hold an override record with a non-empty value. If the read
  of that record succeeds, \<open>ensureValidUUID\<close> returns \<^verbatim>\<open>nil\<close> after that one read: no write
  is attempted and the store is as it was, whatever the identifier and the hardware UUID.
  Whether or not the read succeeds, the stored override value is the same after the call.
\<close>

theorem ensureValidUUID_keeps_override:
  assumes "resources r UUIDOverrideKey = Some v" and "v \<noteq> []"
  shows "(get_error r UUIDOverrideKey = None \<longrightarrow>
            ensureValidUUID r linodeID = (None, r, [OpGet UUIDOverrideKey]))
       \<and> resources (fst (snd (ensureValidUUID r linodeID))) UUIDOverrideKey = Some v"
proof -
  have "ensureValidUUID r linodeID = (None, r, [OpGet UUIDOverrideKey])"
    if "get_error r UUIDOverrideKey = None"
  proof -
    have "ReaderGetByID r UUIDOverrideKey = Inr v"
      using that assms(1) by (simp add: ReaderGetByID_def)
    then show ?thesis using assms(2) by (rule ensureValidUUID_hit)
  qed
  moreover have "resources (fst (snd (ensureValidUUID r linodeID))) UUIDOverrideKey = Some v"
    using ensureValidUUID_state_cases [of r linodeID] assms(1)
    by (auto simp add: Create_resources)
  ultimately show ?thesis by blast
qed

theorem ensureValidUUID_keeps_override_witness:
  "resources store_existing_override UUIDOverrideKey = Some ''existing-uuid-should-not-change''
   \<and> ''existing-uuid-should-not-change'' \<noteq> []
   \<and> get_error store_existing_override UUIDOverrideKey = None
   \<and> ensureValidUUID store_existing_override 79475478 =
       (None, store_existing_override, [OpGet UUIDOverrideKey])
   \<and> resources (fst (snd (ensureValidUUID store_existing_override 79475478))) UUIDOverrideKey =
       Some ''existing-uuid-should-not-change''"
  using ensureValidUUID_keeps_override
    [of store_existing_override "''existing-uuid-should-not-change''" 79475478]
  by (simp add: store_defs)

text \<open>
  The claim as first stated has no condition on the read. When the read of the existing
  record fails, the code goes on: here the hardware UUID is all zeros, so the call
  attempts the create, which the store turns down as a conflict.
\<close>

theorem ensureValidUUID_unread_override_writes:
  "resources (failing_get UUIDOverrideKey (OtherError ''context deadline exceeded'')
                store_existing_override) UUIDOverrideKey
     = Some ''existing-uuid-should-not-change''
   \<and> ensureValidUUID (failing_get UUIDOverrideKey (OtherError ''context deadline exceeded'')
                          store_existing_override) 79475478 =
       (None,
        failing_get UUIDOverrideKey (OtherError ''context deadline exceeded'') store_existing_override,
        [OpGet UUIDOverrideKey, OpGet SystemInformationKey,
         OpCreate UUIDOverrideKey ''00000000-0000-0000-0000-000079475478''])"
  by (simp add: run_defs store_defs generateLinodeUUID_79475478)

subsection \<open>Errors of the two reads\<close>

text \<open>
  C3, as amended. An error of the override read, of whatever kind, is never returned: the
  call goes on to the system-information read, with the same returned error, the same
  trace and the same contents as when that read answers ``not found''. On the
  system-information read, an error other than ``not found'' is returned at once, wrapped
  as \<^verbatim>\<open>failed to get system information\<close>, and ``not found'' lets the call go on with the UUID
  taken as unavailable: nothing more for a non-positive identifier, the create otherwise.
\<close>

theorem ensureValidUUID_read_errors:
  "(ReaderGetByID r UUIDOverrideKey = Inl err \<longrightarrow>
      fst (ensureValidUUID r linodeID) =
        fst (ensureValidUUID (failing_get UUIDOverrideKey NotFoundError r) linodeID)
      \<and> snd (snd (ensureValidUUID r linodeID)) =
        snd (snd (ensureValidUUID (failing_get UUIDOverrideKey NotFoundError r) linodeID))
      \<and> resources (fst (snd (ensureValidUUID r linodeID))) =
        resources (fst (snd (ensureValidUUID (failing_get UUIDOverrideKey NotFoundError r) linodeID)))
      \<and> take 2 (snd (snd (ensureValidUUID r linodeID))) =
        [OpGet UUIDOverrideKey, OpGet SystemInformationKey])
   \<and> (\<not> override_set r \<longrightarrow> ReaderGetByID r SystemInformationKey = Inl err \<longrightarrow>
        \<not> IsNotFoundError err \<longrightarrow>
        ensureValidUUID r linodeID =
          (Some (Errorf ''failed to get system information: %w'' [] err), r,
           [OpGet UUIDOverrideKey, OpGet SystemInformationKey]))
   \<and> (\<not> override_set r \<longrightarrow> ReaderGetByID r SystemInformationKey = Inl err \<longrightarrow>
        IsNotFoundError err \<longrightarrow>
        (linodeID \<le> 0 \<longrightarrow>
           ensureValidUUID r linodeID = (None, r, [OpGet UUIDOverrideKey, OpGet SystemInformationKey]))
        \<and> (0 < linodeID \<longrightarrow>
           snd (snd (ensureValidUUID r linodeID)) =
             [OpGet UUIDOverrideKey, OpGet SystemInformationKey,
              OpCreate UUIDOverrideKey (generateLinodeUUID linodeID)]
           \<and> fst (ensureValidUUID r linodeID) =
             (case fst (Create r UUIDOverrideKey (generateLinodeUUID linodeID)) of
                Some cerr \<Rightarrow>
                  if \<not> IsConflictError cerr
                  then Some (Errorf ''failed to create UUID override for invalid SMBIOS UUID %q: %w''
                               [''not-available-yet''] cerr)
                  else None
              | None \<Rightarrow> None)))"
proof -
  let ?r0 = "failing_get UUIDOverrideKey NotFoundError r"
  have first: "fst (ensureValidUUID r linodeID) = fst (ensureValidUUID ?r0 linodeID)
      \<and> snd (snd (ensureValidUUID r linodeID)) = snd (snd (ensureValidUUID ?r0 linodeID))
      \<and> resources (fst (snd (ensureValidUUID r linodeID))) =
        resources (fst (snd (ensureValidUUID ?r0 linodeID)))
      \<and> take 2 (snd (snd (ensureValidUUID r linodeID))) =
        [OpGet UUIDOverrideKey, OpGet SystemInformationKey]"
    if "ReaderGetByID r UUIDOverrideKey = Inl err"
  proof -
    have miss: "\<not> (\<exists>v. ReaderGetByID r UUIDOverrideKey = Inr v \<and> v \<noteq> [])"
      using that by simp
    have same: "resources ?r0 = resources r"
      by (simp add: failing_get_def)
    show ?thesis
      unfolding ensureValidUUID_miss [OF miss]
        ensureValidUUID_miss [OF failing_get_override_miss [of NotFoundError r]]
        failing_get_override_reads
      by (simp add: failing_get_override_Create same split: sum.splits option.splits)
  qed
  have miss: "\<not> (\<exists>v. ReaderGetByID r UUIDOverrideKey = Inr v \<and> v \<noteq> [])"
    if "\<not> override_set r"
    using that by (auto simp add: override_set_def)
  have second: "ensureValidUUID r linodeID =
          (Some (Errorf ''failed to get system information: %w'' [] err), r,
           [OpGet UUIDOverrideKey, OpGet SystemInformationKey])"
    if "\<not> override_set r" "ReaderGetByID r SystemInformationKey = Inl err" "\<not> IsNotFoundError err"
    using that by (simp add: ensureValidUUID_miss [OF miss])
  have third: "(linodeID \<le> 0 \<longrightarrow>
           ensureValidUUID r linodeID = (None, r, [OpGet UUIDOverrideKey, OpGet SystemInformationKey]))
        \<and> (0 < linodeID \<longrightarrow>
           snd (snd (ensureValidUUID r linodeID)) =
             [OpGet UUIDOverrideKey, OpGet SystemInformationKey,
              OpCreate UUIDOverrideKey (generateLinodeUUID linodeID)]
           \<and> fst (ensureValidUUID r linodeID) =
             (case fst (Create r UUIDOverrideKey (generateLinodeUUID linodeID)) of
                Some cerr \<Rightarrow>
                  if \<not> IsConflictError cerr
                  then Some (Errorf ''failed to create UUID override for invalid SMBIOS UUID %q: %w''
                               [''not-available-yet''] cerr)
                  else None
              | None \<Rightarrow> None))"
    if "\<not> override_set r" "ReaderGetByID r SystemInformationKey = Inl err" "IsNotFoundError err"
    using that by (simp add: ensureValidUUID_miss [OF miss] split: option.splits)
  show ?thesis using first second third by blast
qed

theorem ensureValidUUID_read_errors_witness:
  "ReaderGetByID (failing_get UUIDOverrideKey (OtherError ''connection refused'') store_zero_uuid)
     UUIDOverrideKey = Inl (OtherError ''connection refused'')
   \<and> take 2 (snd (snd (ensureValidUUID
        (failing_get UUIDOverrideKey (OtherError ''connection refused'') store_zero_uuid) 12345))) =
       [OpGet UUIDOverrideKey, OpGet SystemInformationKey]
   \<and> fst (ensureValidUUID
        (failing_get UUIDOverrideKey (OtherError ''connection refused'') store_zero_uuid) 12345) = None
   \<and> \<not> override_set (failing_get SystemInformationKey (OtherError ''connection refused'')
                         (healthy Map.empty))
   \<and> ReaderGetByID (failing_get SystemInformationKey (OtherError ''connection refused'')
                      (healthy Map.empty)) SystemInformationKey
       = Inl (OtherError ''connection refused'')
   \<and> \<not> IsNotFoundError (OtherError ''connection refused'')
   \<and> ensureValidUUID (failing_get SystemInformationKey (OtherError ''connection refused'')
                        (healthy Map.empty)) 12345 =
       (Some (Errorf ''failed to get system information: %w'' [] (OtherError ''connection refused'')),
        failing_get SystemInformationKey (OtherError ''connection refused'') (healthy Map.empty),
        [OpGet UUIDOverrideKey, OpGet SystemInformationKey])
   \<and> \<not> override_set (healthy Map.empty)
   \<and> ReaderGetByID (healthy Map.empty) SystemInformationKey = Inl NotFoundError
   \<and> IsNotFoundError NotFoundError
   \<and> (0::int) < 12345
   \<and> snd (snd (ensureValidUUID (healthy Map.empty) 12345)) =
       [OpGet UUIDOverrideKey, OpGet SystemInformationKey,
        OpCreate UUIDOverrideKey ''00000000-0000-0000-0000-000000012345'']
   \<and> fst (ensureValidUUID (healthy Map.empty) 12345) = None"
  using ensureValidUUID_read_errors
      [of "failing_get UUIDOverrideKey (OtherError ''connection refused'') store_zero_uuid"
          "OtherError ''connection refused''" 12345]
    ensureValidUUID_read_errors
      [of "failing_get SystemInformationKey (OtherError ''connection refused'') (healthy Map.empty)"
          "OtherError ''connection refused''" 12345]
    ensureValidUUID_read_errors [of "healthy Map.empty" NotFoundError 12345]
  by (simp add: run_defs store_defs generateLinodeUUID_12345)

text \<open>
  The claim as first stated has the override read return every error other than
  ``not found''. Here that read fails with such an error, the hardware UUID is valid, and
  the call returns \<^verbatim>\<open>nil\<close>.
\<close>

theorem ensureValidUUID_override_read_error_swallowed:
  "ReaderGetByID (failing_get UUIDOverrideKey (OtherError ''connection refused'') store_valid_uuid)
     UUIDOverrideKey = Inl (OtherError ''connection refused'')
   \<and> \<not> IsNotFoundError (OtherError ''connection refused'')
   \<and> ensureValidUUID (failing_get UUIDOverrideKey (OtherError ''connection refused'')
                          store_valid_uuid) 79475478 =
       (None, failing_get UUIDOverrideKey (OtherError ''connection refused'') store_valid_uuid,
        [OpGet UUIDOverrideKey, OpGet SystemInformationKey])"
  by (simp add: run_defs store_defs)

subsection \<open>A failed create\<close>

text \<open>
  C4. When a call attempts the create, it is the create of the override key with the
  synthetic UUID, and the UUID it observed was invalid or unavailable. If the create fails
  with a conflict the call returns \<^verbatim>\<open>nil\<close> and the store is as it was, so the value
  committed before stays in place. If it fails with any other error the call returns that
  error wrapped with the observed UUID (the placeholder \<^verbatim>\<open>not-available-yet\<close> when there was
  no system information).
\<close>

theorem ensureValidUUID_create_failure:
  assumes "OpCreate k v \<in> set (snd (snd (ensureValidUUID r linodeID)))"
  shows "k = UUIDOverrideKey \<and> v = generateLinodeUUID linodeID
    \<and> (case ReaderGetByID r SystemInformationKey of
          Inr uuid \<Rightarrow> isInvalidUUID uuid
        | Inl rerr \<Rightarrow> IsNotFoundError rerr)
    \<and> (fst (Create r k v) = Some err \<longrightarrow> IsConflictError err \<longrightarrow>
          fst (ensureValidUUID r linodeID) = None \<and> fst (snd (ensureValidUUID r linodeID)) = r)
    \<and> (fst (Create r k v) = Some err \<longrightarrow> \<not> IsConflictError err \<longrightarrow>
          fst (ensureValidUUID r linodeID) =
            Some (Errorf ''failed to create UUID override for invalid SMBIOS UUID %q: %w''
                    [currentUUID r] err)
          \<and> fst (snd (ensureValidUUID r linodeID)) = r)"
proof -
  have miss: "\<not> (\<exists>v. ReaderGetByID r UUIDOverrideKey = Inr v \<and> v \<noteq> [])"
  proof
    assume "\<exists>v. ReaderGetByID r UUIDOverrideKey = Inr v \<and> v \<noteq> []"
    then obtain u where "ReaderGetByID r UUIDOverrideKey = Inr u" and "u \<noteq> []"
      by blast
    then have "ensureValidUUID r linodeID = (None, r, [OpGet UUIDOverrideKey])"
      by (rule ensureValidUUID_hit)
    with assms show False by simp
  qed
  have kv: "k = UUIDOverrideKey \<and> v = generateLinodeUUID linodeID"
    using assms ensureValidUUID_trace_cases [of r linodeID] by auto
  show ?thesis
    using assms unfolding kv [THEN conjunct1] kv [THEN conjunct2]
    by (auto simp add: ensureValidUUID_miss [OF miss] currentUUID_def
          split: sum.splits option.splits if_splits)
qed

theorem ensureValidUUID_create_failure_witness:
  "OpCreate UUIDOverrideKey ''00000000-0000-0000-0000-000079475478''
     \<in> set (snd (snd (ensureValidUUID store_empty_override 79475478)))
   \<and> fst (Create store_empty_override UUIDOverrideKey ''00000000-0000-0000-0000-000079475478'')
       = Some ConflictError
   \<and> IsConflictError ConflictError
   \<and> fst (ensureValidUUID store_empty_override 79475478) = None
   \<and> fst (snd (ensureValidUUID store_empty_override 79475478)) = store_empty_override
   \<and> OpCreate UUIDOverrideKey ''00000000-0000-0000-0000-000079475478''
     \<in> set (snd (snd (ensureValidUUID
          (failing_create UUIDOverrideKey (OtherError ''connection refused'') store_zero_uuid)
          79475478)))
   \<and> fst (Create (failing_create UUIDOverrideKey (OtherError ''connection refused'') store_zero_uuid)
            UUIDOverrideKey ''00000000-0000-0000-0000-000079475478'')
       = Some (OtherError ''connection refused'')
   \<and> \<not> IsConflictError (OtherError ''connection refused'')
   \<and> fst (ensureValidUUID
            (failing_create UUIDOverrideKey (OtherError ''connection refused'') store_zero_uuid)
            79475478) =
       Some (Errorf ''failed to create UUID override for invalid SMBIOS UUID %q: %w''
               [''00000000-0000-0000-0000-000000000000''] (OtherError ''connection refused''))"
  using ensureValidUUID_create_failure
    [of UUIDOverrideKey "''00000000-0000-0000-0000-000079475478''" store_empty_override 79475478
        ConflictError]
    ensureValidUUID_create_failure
    [of UUIDOverrideKey "''00000000-0000-0000-0000-000079475478''"
        "failing_create UUIDOverrideKey (OtherError ''connection refused'') store_zero_uuid"
        79475478 "OtherError ''connection refused''"]
  by (simp add: run_defs store_defs generateLinodeUUID_79475478)

subsection \<open>A non-positive identifier\<close>

text \<open>
  C5, as amended. For every store and every identifier that is zero or negative,
  \<open>ensureValidUUID\<close> makes no write and leaves the store as it was. It returns \<^verbatim>\<open>nil\<close>,
  except when no non-empty override was read and the system-information read fails with an
  error other than ``not found'': that error is returned, wrapped.
\<close>

theorem ensureValidUUID_nonpositive:
  assumes "linodeID \<le> 0"
  shows "fst (snd (ensureValidUUID r linodeID)) = r
    \<and> filter is_write (snd (snd (ensureValidUUID r linodeID))) = []
    \<and> fst (ensureValidUUID r linodeID) =
        (if override_set r then None
         else (case ReaderGetByID r SystemInformationKey of
                 Inl err \<Rightarrow>
                   if \<not> IsNotFoundError err
                   then Some (Errorf ''failed to get system information: %w'' [] err)
                   else None
               | Inr uuid \<Rightarrow> None))"
proof (cases "\<exists>v. ReaderGetByID r UUIDOverrideKey = Inr v \<and> v \<noteq> []")
  case True
  then show ?thesis by (auto simp add: ensureValidUUID_hit override_set_def)
next
  case False
  then have "\<not> override_set r"
    by (auto simp add: override_set_def split: sum.splits)
  then show ?thesis
    using assms False by (simp add: ensureValidUUID_miss split: sum.splits)
qed

theorem ensureValidUUID_nonpositive_witness:
  "(0::int) \<le> 0
   \<and> fst (snd (ensureValidUUID store_zero_uuid 0)) = store_zero_uuid
   \<and> filter is_write (snd (snd (ensureValidUUID store_zero_uuid 0))) = []
   \<and> fst (ensureValidUUID store_zero_uuid 0) = None"
  using ensureValidUUID_nonpositive [of 0 store_zero_uuid]
  by (simp add: run_defs store_defs)

text \<open>
  The claim as first stated promises \<^verbatim>\<open>nil\<close> on every store. Here the system-information
  read fails and the identifier is 0.
\<close>

theorem ensureValidUUID_nonpositive_read_failure:
  "ensureValidUUID (failing_get SystemInformationKey (OtherError ''context deadline exceeded'')
                      store_zero_uuid) 0 =
     (Some (Errorf ''failed to get system information: %w'' []
              (OtherError ''context deadline exceeded'')),
      failing_get SystemInformationKey (OtherError ''context deadline exceeded'') store_zero_uuid,
      [OpGet UUIDOverrideKey, OpGet SystemInformationKey])"
  by (simp add: run_defs store_defs)

subsection \<open>What a call may change\<close>

text \<open>
  C10. On every return path, the trace of a call holds no write but, at most, one create of
  the override key; no update and no destroy is ever issued. Every resource other than the
  override key is unchanged, an override that was there keeps its value whatever it is, an
  override that was not there is absent or holds the synthetic UUID afterwards, and the
  store fails the same calls as before.
\<close>

theorem ensureValidUUID_frame:
  "(filter is_write (snd (snd (ensureValidUUID r linodeID))) = [] \<or>
    filter is_write (snd (snd (ensureValidUUID r linodeID))) =
      [OpCreate UUIDOverrideKey (generateLinodeUUID linodeID)])
   \<and> (\<forall>k v. OpUpdate k v \<notin> set (snd (snd (ensureValidUUID r linodeID)))
            \<and> OpDestroy k \<notin> set (snd (snd (ensureValidUUID r linodeID))))
   \<and> (\<forall>k. k \<noteq> UUIDOverrideKey \<longrightarrow>
          resources (fst (snd (ensureValidUUID r linodeID))) k = resources r k)
   \<and> (\<forall>v. resources r UUIDOverrideKey = Some v \<longrightarrow>
          resources (fst (snd (ensureValidUUID r linodeID))) UUIDOverrideKey = Some v)
   \<and> (resources r UUIDOverrideKey = None \<longrightarrow>
          resources (fst (snd (ensureValidUUID r linodeID))) UUIDOverrideKey = None \<or>
          resources (fst (snd (ensureValidUUID r linodeID))) UUIDOverrideKey =
            Some (generateLinodeUUID linodeID))
   \<and> get_error (fst (snd (ensureValidUUID r linodeID))) = get_error r
   \<and> create_error (fst (snd (ensureValidUUID r linodeID))) = create_error r"
proof -
  let ?t = "snd (snd (ensureValidUUID r linodeID))"
  let ?r' = "fst (snd (ensureValidUUID r linodeID))"
  let ?g = "generateLinodeUUID linodeID"
  have t: "?t = [OpGet UUIDOverrideKey] \<or> ?t = [OpGet UUIDOverrideKey, OpGet SystemInformationKey]
      \<or> ?t = [OpGet UUIDOverrideKey, OpGet SystemInformationKey, OpCreate UUIDOverrideKey ?g]"
    by (rule ensureValidUUID_trace_cases)
  have s: "?r' = r \<or> ?r' = snd (Create r UUIDOverrideKey ?g)"
    by (rule ensureValidUUID_state_cases)
  have w: "filter is_write ?t = [] \<or> filter is_write ?t = [OpCreate UUIDOverrideKey ?g]"
    using t by auto
  have u: "\<forall>k v. OpUpdate k v \<notin> set ?t \<and> OpDestroy k \<notin> set ?t"
    using t by auto
  have other: "\<forall>k. k \<noteq> UUIDOverrideKey \<longrightarrow> resources ?r' k = resources r k"
    using s by (auto simp add: Create_resources)
  have kept: "\<forall>v. resources r UUIDOverrideKey = Some v \<longrightarrow> resources ?r' UUIDOverrideKey = Some v"
    using s by (auto simp add: Create_resources)
  have fresh: "resources r UUIDOverrideKey = None \<longrightarrow>
      resources ?r' UUIDOverrideKey = None \<or> resources ?r' UUIDOverrideKey = Some ?g"
    using s by (auto simp add: Create_resources split: if_splits)
  have e: "get_error ?r' = get_error r" "create_error ?r' = create_error r"
    using s Create_errors [of r UUIDOverrideKey ?g] by auto
  show ?thesis using w u other kept fresh e by blast
qed

theorem ensureValidUUID_frame_witness:
  "filter is_write (snd (snd (ensureValidUUID store_zero_uuid 79475478))) =
     [OpCreate UUIDOverrideKey ''00000000-0000-0000-0000-000079475478'']
   \<and> SystemInformationKey \<noteq> UUIDOverrideKey
   \<and> resources (fst (snd (ensureValidUUID store_zero_uuid 79475478))) SystemInformationKey =
       Some ''00000000-0000-0000-0000-000000000000''
   \<and> resources store_zero_uuid UUIDOverrideKey = None
   \<and> resources (fst (snd (ensureValidUUID store_zero_uuid 79475478))) UUIDOverrideKey =
       Some ''00000000-0000-0000-0000-000079475478''
   \<and> resources store_existing_override UUIDOverrideKey = Some ''existing-uuid-should-not-change''
   \<and> resources (fst (snd (ensureValidUUID store_existing_override 79475478))) UUIDOverrideKey =
       Some ''existing-uuid-should-not-change''"
  using ensureValidUUID_frame [of store_zero_uuid 79475478]
    ensureValidUUID_frame [of store_existing_override 79475478]
  by (simp add: run_defs store_defs generateLinodeUUID_79475478)

section \<open>The translation: \<^verbatim>\<open>ParseMetadata\<close>\<close>

subsection \<open>The loops and the shape of a run\<close>

lemma Split_first: "\<exists>pieces. Split s sep = takeWhile (\<lambda>c. c \<noteq> sep) s # pieces"
proof (induction s)
  case Nil
  show ?case by simp
next
  case (Cons c s)
  then obtain pieces where "Split s sep = takeWhile (\<lambda>c. c \<noteq> sep) s # pieces"
    by blast
  then show ?case by simp
qed

lemma foldl_public_step:
  "foldl (public_step lib) (publicIPs, addresses) ifaces =
     (publicIPs @ map (\<lambda>iface. Addr_String lib (Addr iface)) ifaces,
      addresses @ map (\<lambda>iface.
        \<lparr>ConfigLayer = ConfigPlatform, LinkName = ''eth0'', Address = iface,
         Scope = ScopeGlobal, Flags = {AddressPermanent}, Family = FamilyInet4\<rparr>) ifaces)"
  by (induction ifaces arbitrary: publicIPs addresses) simp_all

lemma foldl_private_step:
  "foldl private_step addresses ifaces =
     addresses @ map (\<lambda>iface.
        \<lparr>ConfigLayer = ConfigPlatform, LinkName = ''eth0'', Address = iface,
         Scope = ScopeGlobal, Flags = {AddressPermanent}, Family = FamilyInet4\<rparr>) ifaces"
  by (induction ifaces arbitrary: addresses) (simp_all add: private_step_def)

lemma foldl_ranges_step:
  "foldl (ranges_step lib) (publicIPs, addresses) ifaces =
     (publicIPs @ map (\<lambda>iface. Addr_String lib (Addr iface)) ifaces,
      addresses @ map (\<lambda>iface.
        \<lparr>ConfigLayer = ConfigPlatform, LinkName = ''eth0'', Address = iface,
         Scope = ScopeGlobal, Flags = {AddressManagementTemp}, Family = FamilyInet6\<rparr>) ifaces)"
  by (induction ifaces arbitrary: publicIPs addresses) simp_all

lemma foldl_external_step:
  "foldl (external_step lib) externalIPs (map (\<lambda>iface. Addr_String lib (Addr iface)) ifaces) =
     externalIPs @ concat (map (bare_address lib) ifaces)"
  by (induction ifaces arbitrary: externalIPs)
     (simp_all add: external_step_def bare_address_def split: sum.splits)

lemma ParseMetadata_hostname_failure:
  assumes "Label metadata \<noteq> []"
    and "ParseFQDN lib \<lparr>Hostname = [], Domainname = [], ConfigLayer_h = ConfigPlatform\<rparr>
           (Label metadata) = Inl err"
  shows "ParseMetadata lib metadata interfaceAddresses = Failed err"
  using assms by (simp add: ParseMetadata_def)

lemma ParseMetadata_hostname_ok:
  assumes "hostname_ok lib metadata"
  shows "ParseMetadata lib metadata interfaceAddresses =
     (case ParseAddr lib (gateway_string lib interfaceAddresses) of
        Inl err \<Rightarrow> Failed err
      | Inr ipv6gw \<Rightarrow>
          Returned
            \<lparr>Hostnames = hostnames_of lib metadata,
             Addresses =
               map (\<lambda>iface.
                 \<lparr>ConfigLayer = ConfigPlatform, LinkName = ''eth0'', Address = iface,
                  Scope = ScopeGlobal, Flags = {AddressPermanent}, Family = FamilyInet4\<rparr>)
                 (Public (IPv4 interfaceAddresses))
               @ map (\<lambda>iface.
                 \<lparr>ConfigLayer = ConfigPlatform, LinkName = ''eth0'', Address = iface,
                  Scope = ScopeGlobal, Flags = {AddressPermanent}, Family = FamilyInet4\<rparr>)
                 (Private (IPv4 interfaceAddresses))
               @ map (\<lambda>iface.
                 \<lparr>ConfigLayer = ConfigPlatform, LinkName = ''eth0'', Address = iface,
                  Scope = ScopeGlobal, Flags = {AddressManagementTemp}, Family = FamilyInet6\<rparr>)
                 (Ranges (IPv6 interfaceAddresses))
               @ [\<lparr>ConfigLayer = ConfigPlatform, LinkName = ''eth0'',
                   Address = LinkLocal (IPv6 interfaceAddresses),
                   Scope = ScopeLink, Flags = {}, Family = FamilyInet6\<rparr>],
             Routes =
               [Normalize lib
                  \<lparr>ConfigLayer_r = ConfigPlatform, Gateway = ipv6gw, OutLinkName = ''eth0'',
                   Destination = LinkLocal (IPv6 interfaceAddresses),
                   Table = TableMain, Protocol = ProtocolStatic, Type = TypeUnicast,
                   Family_r = FamilyInet6, Priority = 1024\<rparr>],
             ExternalIPs =
               concat (map (bare_address lib) (Public (IPv4 interfaceAddresses)))
               @ concat (map (bare_address lib) (Ranges (IPv6 interfaceAddresses))),
             Metadata = Some
               \<lparr>Platform = ''akamai'', Hostname_m = Label metadata,
                Region_m = Region metadata, InstanceType = Type_i metadata,
                InstanceID = Itoa (ID metadata),
                ProviderID = ''linode://'' @ Itoa (ID metadata)\<rparr>\<rparr>)"
proof -
  obtain pieces where split:
    "Split (Prefix_String lib (LinkLocal (IPv6 interfaceAddresses))) CHR '':'' =
       takeWhile (\<lambda>c. c \<noteq> CHR '':'') (Prefix_String lib (LinkLocal (IPv6 interfaceAddresses)))
         # pieces"
    using Split_first by blast
  have host: "(if Label metadata \<noteq> []
            then (case ParseFQDN lib \<lparr>Hostname = [], Domainname = [],
                                      ConfigLayer_h = ConfigPlatform\<rparr> (Label metadata) of
                    Inl err \<Rightarrow> Inl err
                  | Inr hostnameSpec \<Rightarrow> Inr [hostnameSpec])
            else Inr []) = Inr (hostnames_of lib metadata)"
    using assms by (auto simp add: hostname_ok_def hostnames_of_def split: sum.splits)
  show ?thesis
    unfolding ParseMetadata_def host
    by (simp add: foldl_public_step foldl_private_step foldl_ranges_step split gateway_string_def
          foldl_external_step split: sum.splits)
qed

lemma ParseMetadata_Returned_hostname_ok:
  assumes "ParseMetadata lib metadata interfaceAddresses = Returned networkConfig"
  shows "hostname_ok lib metadata"
proof (rule ccontr)
  assume "\<not> hostname_ok lib metadata"
  then obtain err where "Label metadata \<noteq> []"
    and "ParseFQDN lib \<lparr>Hostname = [], Domainname = [], ConfigLayer_h = ConfigPlatform\<rparr>
           (Label metadata) = Inl err"
    by (auto simp add: hostname_ok_def split: sum.splits)
  then have "ParseMetadata lib metadata interfaceAddresses = Failed err"
    by (rule ParseMetadata_hostname_failure)
  with assms show False by simp
qed


lemmas sample_defs = sample_extern_def sample_instance_def sample_network_def
  sample_network_unparsable_def sample_network_no_gateway_def sample_network_wide_def

lemma sample_hostname_ok: "hostname_ok sample_extern sample_instance"
  by (simp add: hostname_ok_def sample_defs)

lemma sample_gateway:
  "gateway_string sample_extern sample_network = ''fe80::1''"
  "gateway_string sample_extern sample_network_unparsable = ''fe80::1''"
  "gateway_string sample_extern sample_network_no_gateway = ''invalid Prefix::1''"
  "gateway_string sample_extern sample_network_wide = ''fe80::1''"
  by (simp_all add: gateway_string_def sample_defs Itoa_def digits.simps digit_char_def)

lemma sample_ParseAddr:
  "ParseAddr sample_extern ''fe80::1'' = Inr ''fe80::1''"
  "ParseAddr sample_extern ''invalid Prefix::1'' = Inl (OtherError ''unable to parse IP'')"
  by (simp_all add: sample_defs)

subsection \<open>The default IPv6 route\<close>




subsection \<open>The address entries\<close>

text \<open>
  C8. Every configuration \<open>ParseMetadata\<close> returns lists, in this order: one entry for each
  public and then each private IPv4 prefix, with global scope, the permanent flag, the IPv4
  family and link \<^verbatim>\<open>eth0\<close>, the same for both kinds; one entry for each IPv6 range, with
  global scope, the temporary-management flag and the IPv6 family; and one entry for the
  link-local prefix, with link scope and no flag. It is the only entry of link scope, and
  it is there whatever the other lists hold.
\<close>

theorem ParseMetadata_addresses:
  assumes "ParseMetadata lib metadata interfaceAddresses = Returned networkConfig"
  shows "Addresses networkConfig =
       map (\<lambda>iface.
         \<lparr>ConfigLayer = ConfigPlatform, LinkName = ''eth0'', Address = iface,
          Scope = ScopeGlobal, Flags = {AddressPermanent}, Family = FamilyInet4\<rparr>)
         (Public (IPv4 interfaceAddresses))
       @ map (\<lambda>iface.
         \<lparr>ConfigLayer = ConfigPlatform, LinkName = ''eth0'', Address = iface,
          Scope = ScopeGlobal, Flags = {AddressPermanent}, Family = FamilyInet4\<rparr>)
         (Private (IPv4 interfaceAddresses))
       @ map (\<lambda>iface.
         \<lparr>ConfigLayer = ConfigPlatform, LinkName = ''eth0'', Address = iface,
          Scope = ScopeGlobal, Flags = {AddressManagementTemp}, Family = FamilyInet6\<rparr>)
         (Ranges (IPv6 interfaceAddresses))
       @ [\<lparr>ConfigLayer = ConfigPlatform, LinkName = ''eth0'',
           Address = LinkLocal (IPv6 interfaceAddresses),
           Scope = ScopeLink, Flags = {}, Family = FamilyInet6\<rparr>]
    \<and> length (Addresses networkConfig) =
        length (Public (IPv4 interfaceAddresses)) + length (Private (IPv4 interfaceAddresses))
        + length (Ranges (IPv6 interfaceAddresses)) + 1
    \<and> filter (\<lambda>a. Scope a = ScopeLink) (Addresses networkConfig) =
        [\<lparr>ConfigLayer = ConfigPlatform, LinkName = ''eth0'',
          Address = LinkLocal (IPv6 interfaceAddresses),
          Scope = ScopeLink, Flags = {}, Family = FamilyInet6\<rparr>]"
proof -
  have "hostname_ok lib metadata"
    using assms by (rule ParseMetadata_Returned_hostname_ok)
  then have eq: "Addresses networkConfig =
       map (\<lambda>iface.
         \<lparr>ConfigLayer = ConfigPlatform, LinkName = ''eth0'', Address = iface,
          Scope = ScopeGlobal, Flags = {AddressPermanent}, Family = FamilyInet4\<rparr>)
         (Public (IPv4 interfaceAddresses))
       @ map (\<lambda>iface.
         \<lparr>ConfigLayer = ConfigPlatform, LinkName = ''eth0'', Address = iface,
          Scope = ScopeGlobal, Flags = {AddressPermanent}, Family = FamilyInet4\<rparr>)
         (Private (IPv4 interfaceAddresses))
       @ map (\<lambda>iface.
         \<lparr>ConfigLayer = ConfigPlatform, LinkName = ''eth0'', Address = iface,
          Scope = ScopeGlobal, Flags = {AddressManagementTemp}, Family = FamilyInet6\<rparr>)
         (Ranges (IPv6 interfaceAddresses))
       @ [\<lparr>ConfigLayer = ConfigPlatform, LinkName = ''eth0'',
           Address = LinkLocal (IPv6 interfaceAddresses),
           Scope = ScopeLink, Flags = {}, Family = FamilyInet6\<rparr>]"
    using assms by (auto simp add: ParseMetadata_hostname_ok split: sum.splits)
  show ?thesis
    unfolding eq by (simp add: filter_map comp_def)
qed

theorem ParseMetadata_addresses_witness:
  "\<exists>networkConfig.
     ParseMetadata sample_extern sample_instance sample_network = Returned networkConfig
     \<and> Addresses networkConfig =
       [\<lparr>ConfigLayer = ConfigPlatform, LinkName = ''eth0'',
         Address = \<lparr>Addr = ''203.0.113.7'', Bits = 24\<rparr>,
         Scope = ScopeGlobal, Flags = {AddressPermanent}, Family = FamilyInet4\<rparr>,
        \<lparr>ConfigLayer = ConfigPlatform, LinkName = ''eth0'',
         Address = \<lparr>Addr = ''192.168.128.9'', Bits = 17\<rparr>,
         Scope = ScopeGlobal, Flags = {AddressPermanent}, Family = FamilyInet4\<rparr>,
        \<lparr>ConfigLayer = ConfigPlatform, LinkName = ''eth0'',
         Address = \<lparr>Addr = ''2001:db8::1'', Bits = 64\<rparr>,
         Scope = ScopeGlobal, Flags = {AddressManagementTemp}, Family = FamilyInet6\<rparr>,
        \<lparr>ConfigLayer = ConfigPlatform, LinkName = ''eth0'',
         Address = \<lparr>Addr = ''fe80::abcd:1'', Bits = 64\<rparr>,
         Scope = ScopeLink, Flags = {}, Family = FamilyInet6\<rparr>]
     \<and> length (Addresses networkConfig) = 4"
proof -
  obtain networkConfig where
    ret: "ParseMetadata sample_extern sample_instance sample_network = Returned networkConfig"
    by (simp add: ParseMetadata_hostname_ok [OF sample_hostname_ok] sample_gateway sample_ParseAddr)
  show ?thesis
    using ret ParseMetadata_addresses [OF ret]
    by (simp add: sample_network_def)
qed

subsection \<open>The external IPs\<close>

text \<open>
  C9. In every configuration \<open>ParseMetadata\<close> returns, the external-IP list is made from the
  public IPv4 prefixes, in order, followed by the IPv6 ranges, in order, and from nothing
  else: each prefix gives its bare address, printed and parsed again, and an address whose
  text does not parse is left out. Where every such text parses back to its address, the
  list is the bare addresses of the public prefixes followed by those of the ranges.
  Whether \<open>ParseMetadata\<close> returns a configuration depends on the hostname step and the
  gateway only, so a text that does not parse never makes the translation fail.
\<close>

theorem ParseMetadata_external_ips:
  "(ParseMetadata lib metadata interfaceAddresses = Returned networkConfig \<longrightarrow>
      ExternalIPs networkConfig =
        concat (map (bare_address lib) (Public (IPv4 interfaceAddresses)))
        @ concat (map (bare_address lib) (Ranges (IPv6 interfaceAddresses)))
      \<and> ((\<forall>iface \<in> set (Public (IPv4 interfaceAddresses) @ Ranges (IPv6 interfaceAddresses)).
             ParseAddr lib (Addr_String lib (Addr iface)) = Inr (Addr iface)) \<longrightarrow>
           ExternalIPs networkConfig =
             map Addr (Public (IPv4 interfaceAddresses))
             @ map Addr (Ranges (IPv6 interfaceAddresses))))
   \<and> ((\<exists>config. ParseMetadata lib metadata interfaceAddresses = Returned config) \<longleftrightarrow>
        hostname_ok lib metadata
        \<and> (\<exists>gw. ParseAddr lib (gateway_string lib interfaceAddresses) = Inr gw))"
proof (intro conjI impI)
  assume ret: "ParseMetadata lib metadata interfaceAddresses = Returned networkConfig"
  then have "hostname_ok lib metadata"
    by (rule ParseMetadata_Returned_hostname_ok)
  then show ext: "ExternalIPs networkConfig =
        concat (map (bare_address lib) (Public (IPv4 interfaceAddresses)))
        @ concat (map (bare_address lib) (Ranges (IPv6 interfaceAddresses)))"
    using ret by (auto simp add: ParseMetadata_hostname_ok split: sum.splits)
  assume round: "\<forall>iface \<in> set (Public (IPv4 interfaceAddresses) @ Ranges (IPv6 interfaceAddresses)).
             ParseAddr lib (Addr_String lib (Addr iface)) = Inr (Addr iface)"
  have "concat (map (bare_address lib) ifaces) = map Addr ifaces"
    if "\<forall>iface \<in> set ifaces. ParseAddr lib (Addr_String lib (Addr iface)) = Inr (Addr iface)"
    for ifaces
    using that by (induction ifaces) (simp_all add: bare_address_def)
  then show "ExternalIPs networkConfig =
             map Addr (Public (IPv4 interfaceAddresses))
             @ map Addr (Ranges (IPv6 interfaceAddresses))"
    using round ext by simp
next
  show "(\<exists>config. ParseMetadata lib metadata interfaceAddresses = Returned config) \<longleftrightarrow>
        hostname_ok lib metadata
        \<and> (\<exists>gw. ParseAddr lib (gateway_string lib interfaceAddresses) = Inr gw)"
  proof (cases "hostname_ok lib metadata")
    case True
    then show ?thesis
      by (auto simp add: ParseMetadata_hostname_ok split: sum.splits)
  next
    case False
    then show ?thesis
      using ParseMetadata_Returned_hostname_ok by blast
  qed
qed

theorem ParseMetadata_external_ips_witness:
  "(\<exists>networkConfig.
      ParseMetadata sample_extern sample_instance sample_network = Returned networkConfig
      \<and> ExternalIPs networkConfig = [''203.0.113.7'', ''2001:db8::1''])
   \<and> (\<exists>networkConfig.
      ParseMetadata sample_extern sample_instance sample_network_unparsable = Returned networkConfig
      \<and> ExternalIPs networkConfig = [''203.0.113.7'', ''2001:db8::1''])"
proof -
  obtain c1 where
    r1: "ParseMetadata sample_extern sample_instance sample_network = Returned c1"
    by (simp add: ParseMetadata_hostname_ok [OF sample_hostname_ok] sample_gateway sample_ParseAddr)
  obtain c2 where
    r2: "ParseMetadata sample_extern sample_instance sample_network_unparsable = Returned c2"
    by (simp add: ParseMetadata_hostname_ok [OF sample_hostname_ok] sample_gateway sample_ParseAddr)
  have round: "\<forall>iface \<in> set (Public (IPv4 sample_network) @ Ranges (IPv6 sample_network)).
      ParseAddr sample_extern (Addr_String sample_extern (Addr iface)) = Inr (Addr iface)"
    by (simp add: sample_defs)
  have "ExternalIPs c1 =
      map Addr (Public (IPv4 sample_network)) @ map Addr (Ranges (IPv6 sample_network))"
    using ParseMetadata_external_ips [where lib = sample_extern and metadata = sample_instance
        and interfaceAddresses = sample_network and networkConfig = c1] r1 round
    by blast
  then have "ExternalIPs c1 = [''203.0.113.7'', ''2001:db8::1'']"
    by (simp add: sample_network_def)
  moreover have "ExternalIPs c2 = [''203.0.113.7'', ''2001:db8::1'']"
    using ParseMetadata_external_ips [where lib = sample_extern and metadata = sample_instance
        and interfaceAddresses = sample_network_unparsable and networkConfig = c2] r2
    by (simp add: bare_address_def sample_defs)
  ultimately show ?thesis using r1 r2 by blast
qed

end
